theory Spec2Isabelle
  imports Complex_Main "HOL-Library.AList" "HOL-Library.Sublist"
begin

section \<open>Data model of \<open>streamlit_app.py\<close>\<close>

text \<open>
  Python strings are modelled by their UTF-8 bytes, so equality and containment of
  well-formed strings are those of the source. The three answer literals of the form
  start with an emoji (U+2705, U+274C, U+2796), written here byte by byte.
\<close>

definition resp_cumple :: string where
  "resp_cumple = [CHR 0xE2, CHR 0x9C, CHR 0x85] @ '' Cumple''"

definition resp_no_cumple :: string where
  "resp_no_cumple = [CHR 0xE2, CHR 0x9D, CHR 0x8C] @ '' No cumple''"

definition resp_no_aplica :: string where
  "resp_no_aplica = [CHR 0xE2, CHR 0x9E, CHR 0x96] @ '' No aplica''"

text \<open>The default the form page stores for a question nobody answered (line 1467).\<close>

definition resp_no_seleccionado :: string where
  "resp_no_seleccionado = ''No seleccionado''"

text \<open>
  The pydantic models of lines 43--73. A \<open>datetime\<close> is a point on the time line,
  modelled as an integer time stamp; \<open>fecha.isoformat()\<close> is left out, the report below
  keeps the time stamp itself.
\<close>

record Empresa =
  tipo :: string
  empleador :: string
  razon_social :: string
  ruc :: string
  telefono :: string
  correo :: string
  actividad_economica :: string
  tipo_centro :: string
  direccion :: string
  total_trabajadores :: int
  consolidado_planilla :: bool
  estadisticas_empresa :: "(string \<times> int) list"
  horario_trabajo :: string
  entrevistados :: "string list"
  fecha_registro :: int

record PreguntaVerificacion =
  pregunta_id :: int
  seccion :: string
  categoria :: string
  pregunta :: string
  normativa :: string
  respuesta :: "string option"
  observaciones :: "string option"

record FormularioVerificacion =
  empresa_ruc :: string
  inspector_cedula :: string
  fecha :: int
  preguntas :: "PreguntaVerificacion list"

text \<open>
  \<open>DATABASE\<close> (lines 76--87): two dictionaries, kept as association lists in insertion
  order, which is the order \<open>.values()\<close> enumerates.
\<close>

record Database =
  empresas :: "(string \<times> Empresa) list"
  formularios :: "(string \<times> FormularioVerificacion) list"

datatype HTTPException = HTTPException nat string

section \<open>The aggregation of \<open>generar_reporte_empresa\<close> (lines 219--279)\<close>

text \<open>The per-section dictionary created at lines 255--260 and its four counters.\<close>

record SeccionStats =
  total :: int
  cumple :: int
  no_cumple :: int
  no_aplica :: int

definition seccion_nueva :: SeccionStats where
  "seccion_nueva = \<lparr>total = 0, cumple = 0, no_cumple = 0, no_aplica = 0\<rparr>"

text \<open>
  The loop state: the two running totals of lines 244--245 and the dictionary
  \<open>estadisticas["secciones"]\<close>, an association list in insertion order.
\<close>

record Acumulador =
  preguntas_totales :: int
  cumplimientos_totales :: int
  acc_secciones :: "(string \<times> SeccionStats) list"

definition acumulador_inicial :: Acumulador where
  "acumulador_inicial =
     \<lparr>preguntas_totales = 0, cumplimientos_totales = 0, acc_secciones = []\<rparr>"

text \<open>The \<open>if\<close>/\<open>elif\<close>/\<open>else\<close> of lines 263--268 on one section dictionary.\<close>

definition contar_respuesta :: "string option \<Rightarrow> SeccionStats \<Rightarrow> SeccionStats" where
  "contar_respuesta r d =
     (if r = Some resp_cumple then d\<lparr>cumple := cumple d + 1\<rparr>
      else if r = Some resp_no_cumple then d\<lparr>no_cumple := no_cumple d + 1\<rparr>
      else d\<lparr>no_aplica := no_aplica d + 1\<rparr>)"

text \<open>The body of the inner loop, lines 249--268, for one question.\<close>

definition procesar_pregunta :: "PreguntaVerificacion \<Rightarrow> Acumulador \<Rightarrow> Acumulador" where
  "procesar_pregunta p a =
     (let c = (if respuesta p = Some resp_cumple
               then cumplimientos_totales a + 1 else cumplimientos_totales a);
          t = preguntas_totales a + 1;
          s0 = acc_secciones a;
          s1 = (if seccion p \<notin> fst ` set s0
                then AList.update (seccion p) seccion_nueva s0 else s0);
          s2 = AList.map_entry (seccion p) (\<lambda>d. d\<lparr>total := total d + 1\<rparr>) s1;
          s3 = AList.map_entry (seccion p) (contar_respuesta (respuesta p)) s2
      in \<lparr>preguntas_totales = t, cumplimientos_totales = c, acc_secciones = s3\<rparr>)"

text \<open>\<open>for pregunta in formulario.preguntas\<close> (line 248).\<close>

fun procesar_preguntas :: "PreguntaVerificacion list \<Rightarrow> Acumulador \<Rightarrow> Acumulador" where
  "procesar_preguntas [] a = a"
| "procesar_preguntas (p # ps) a = procesar_preguntas ps (procesar_pregunta p a)"

text \<open>\<open>for formulario in formularios\<close> (line 247): every stored form is walked.\<close>

fun procesar_formularios :: "FormularioVerificacion list \<Rightarrow> Acumulador \<Rightarrow> Acumulador" where
  "procesar_formularios [] a = a"
| "procesar_formularios (f # fs) a =
     procesar_formularios fs (procesar_preguntas (preguntas f) a)"

text \<open>
  Python's \<open>round(x, ndigits)\<close> rounds to the nearest multiple of \<open>10^-ndigits\<close>, a tie
  going to the even neighbour. The floats of the source are idealised as exact
  rationals: the quotient and the product of line 272 carry no representation error here.
\<close>

definition round_half_even :: "rat \<Rightarrow> int" where
  "round_half_even x =
     (let n = \<lfloor>x\<rfloor>; r = x - of_int n
      in if r < 1 / 2 then n else if 1 / 2 < r then n + 1
         else if even n then n else n + 1)"

definition py_round :: "rat \<Rightarrow> nat \<Rightarrow> rat" where
  "py_round x ndigits = of_int (round_half_even (x * 10 ^ ndigits)) / 10 ^ ndigits"

text \<open>Lines 270--273: the overall ratio, left at its initial 0 when nothing was counted.\<close>

definition cumplimiento_de :: "Acumulador \<Rightarrow> rat" where
  "cumplimiento_de a =
     (if preguntas_totales a > 0
      then py_round (of_int (cumplimientos_totales a) / of_int (preguntas_totales a) * 100) 2
      else 0)"

record Estadisticas =
  total_verificaciones :: nat
  ultima_verificacion :: int
  cumplimiento_promedio :: rat
  secciones :: "(string \<times> SeccionStats) list"

record Reporte =
  rep_empresa :: Empresa
  rep_estadisticas :: Estadisticas
  ultimo_formulario :: FormularioVerificacion

text \<open>\<open>max(f.fecha for f in formularios)\<close> on a non-empty list (line 239).\<close>

fun max_fecha :: "FormularioVerificacion \<Rightarrow> FormularioVerificacion list \<Rightarrow> int" where
  "max_fecha f [] = fecha f"
| "max_fecha f (g # gs) = max (fecha f) (max_fecha g gs)"

text \<open>Lines 237--273 for the non-empty list \<open>f # fs\<close> of the company's forms.\<close>

definition calcular_estadisticas ::
  "FormularioVerificacion \<Rightarrow> FormularioVerificacion list \<Rightarrow> Estadisticas" where
  "calcular_estadisticas f fs =
     (let a = procesar_formularios (f # fs) acumulador_inicial
      in \<lparr>total_verificaciones = length (f # fs),
          ultima_verificacion = max_fecha f fs,
          cumplimiento_promedio = cumplimiento_de a,
          secciones = acc_secciones a\<rparr>)"

text \<open>The list comprehension of lines 227--231.\<close>

definition formularios_de :: "Database \<Rightarrow> string \<Rightarrow> FormularioVerificacion list" where
  "formularios_de db r = filter (\<lambda>f. empresa_ruc f = r) (map snd (formularios db))"

text \<open>
  The endpoint. Its two \<open>raise HTTPException\<close> are the \<open>Inl\<close> results; the
  authentication dependency is outside the model.
\<close>

definition generar_reporte_empresa :: "Database \<Rightarrow> string \<Rightarrow> HTTPException + Reporte" where
  "generar_reporte_empresa db r =
     (case map_of (empresas db) r of
        None \<Rightarrow> Inl (HTTPException 404 ''Empresa no encontrada'')
      | Some e \<Rightarrow>
          (case formularios_de db r of
             [] \<Rightarrow> Inl (HTTPException 404 ''No hay formularios para esta empresa'')
           | f # fs \<Rightarrow>
               Inr \<lparr>rep_empresa = e,
                    rep_estadisticas = calcular_estadisticas f fs,
                    ultimo_formulario = last (f # fs)\<rparr>))"



section \<open>Section labels\<close>

text \<open>
  \<open>seccion.replace("_", " ").title()\<close>. \<open>str.title\<close> is modelled on ASCII letters, which
  is what the section keys of the form are made of (lines 854--1343); a byte outside ASCII
  counts as uncased here.
\<close>

definition es_minuscula :: "char \<Rightarrow> bool" where
  "es_minuscula c = (97 \<le> (of_char c :: nat) \<and> (of_char c :: nat) \<le> 122)"

definition es_mayuscula :: "char \<Rightarrow> bool" where
  "es_mayuscula c = (65 \<le> (of_char c :: nat) \<and> (of_char c :: nat) \<le> 90)"

definition a_mayuscula :: "char \<Rightarrow> char" where
  "a_mayuscula c = (if es_minuscula c then char_of ((of_char c :: nat) - 32) else c)"

definition a_minuscula :: "char \<Rightarrow> char" where
  "a_minuscula c = (if es_mayuscula c then char_of ((of_char c :: nat) + 32) else c)"

fun title_desde :: "bool \<Rightarrow> string \<Rightarrow> string" where
  "title_desde previo [] = []"
| "title_desde previo (c # cs) =
     (if es_minuscula c \<or> es_mayuscula c
      then (if previo then a_minuscula c else a_mayuscula c) # title_desde True cs
      else c # title_desde False cs)"

definition str_title :: "string \<Rightarrow> string" where
  "str_title s = title_desde False s"


definition str_lower :: "string \<Rightarrow> string" where
  "str_lower s = map a_minuscula s"

definition reemplazar_guion :: "string \<Rightarrow> string" where
  "reemplazar_guion s = map (\<lambda>c. if c = CHR ''_'' then CHR '' '' else c) s"

definition etiqueta_seccion :: "string \<Rightarrow> string" where
  "etiqueta_seccion s = str_title (reemplazar_guion s)"

section \<open>The section percentage (lines 1676--1677, 1720--1721, 1745--1746, 2119--2120, 2149--2150)\<close>

datatype py_error = ZeroDivisionError | LibraryError

text \<open>Python's \<open>/\<close> on integers: it raises on a zero divisor.\<close>

definition py_truediv :: "int \<Rightarrow> int \<Rightarrow> py_error + rat" where
  "py_truediv a b = (if b = 0 then Inl ZeroDivisionError else Inr (of_int a / of_int b))"

text \<open>
  \<open>(datos.get("cumple", 0) / total_aplicable) * 100 if total_aplicable > 0 else 0\<close>,
  the same expression at all five places.
\<close>

definition porcentaje_seccion :: "SeccionStats \<Rightarrow> py_error + rat" where
  "porcentaje_seccion datos =
     (let total_aplicable = total datos - no_aplica datos
      in if total_aplicable > 0
         then (case py_truediv (cumple datos) total_aplicable of
                 Inl e \<Rightarrow> Inl e
               | Inr q \<Rightarrow> Inr (q * 100))
         else Inr 0)"

text \<open>The loops of lines 1675--1679 and 2118--2122 that fill \<open>secciones\<close> and \<open>porcentajes\<close>.\<close>

fun porcentajes_secciones :: "(string \<times> SeccionStats) list \<Rightarrow> py_error + (string \<times> rat) list" where
  "porcentajes_secciones [] = Inr []"
| "porcentajes_secciones ((s, datos) # xs) =
     (case porcentaje_seccion datos of
        Inl e \<Rightarrow> Inl e
      | Inr p \<Rightarrow>
          (case porcentajes_secciones xs of
             Inl e \<Rightarrow> Inl e
           | Inr ps \<Rightarrow> Inr ((etiqueta_seccion s, p) # ps)))"

section \<open>The PDF report of \<open>generate_pdf_report\<close> (lines 1502--1930)\<close>

text \<open>
  The document is the sequence of the drawing calls that carry data: \<open>pdf.image\<close>,
  \<open>pdf.text\<close>, \<open>pdf.cell\<close>, \<open>pdf.multi_cell\<close> and \<open>pdf.add_page\<close>. Fonts, colours,
  line feeds, the fixed headings and labels and the blocks that depend on the clock or on
  the session (general information, signature, footer) are left out; so is the fixed text
  between the fields of a long f-string. A number formatted with \<open>:.1f\<close> is kept as the
  number, and each of the three fixed lists of recommendations is kept as its name.
\<close>

datatype Recomendaciones = Rec_excelente | Rec_aceptable | Rec_insuficiente

datatype contenido = Texto string | Numero int | Decimal1 rat | Plantilla Recomendaciones

datatype Grafico = Pastel int int int | Barras "(string \<times> rat) list"

datatype pdf_op =
    Image_bytes string int int int
  | Image_tmp nat Grafico
  | Text int int string
  | Cell "contenido list"
  | Multi_cell "contenido list"
  | Add_page

text \<open>
  The libraries are the environment. \<open>procesar_imagen\<close> stands for lines 1521--1525
  (\<open>Image.open\<close>, \<open>convert\<close>, \<open>save\<close>, \<open>pdf.image\<close>): the JPEG bytes, or \<open>None\<close> when any
  of them raises. \<open>resultado_grafico\<close> says where the \<open>try\<close> block of a chart stops:
  nowhere, while the figure is built (before the temporary file exists), in
  \<open>plt.savefig\<close>, or in \<open>pdf.image\<close>.
\<close>

datatype IdGrafico = GraficoGeneral | GraficoBarras | GraficoSeccion string

datatype ResultadoGrafico = Exito | FallaFigura | FallaGuardar | FallaInsertar

record Entorno =
  procesar_imagen :: "string \<Rightarrow> string option"
  resultado_grafico :: "IdGrafico \<Rightarrow> ResultadoGrafico"

text \<open>The temporary files on disk, and the next fresh name.\<close>

record Mundo =
  archivos :: "nat list"
  siguiente :: nat

text \<open>\<open>tempfile.NamedTemporaryFile(delete=False, suffix='.png')\<close>: the file outlives the \<open>with\<close>.\<close>

definition crear_temporal :: "Mundo \<Rightarrow> nat \<times> Mundo" where
  "crear_temporal m =
     (siguiente m, m\<lparr>archivos := siguiente m # archivos m, siguiente := Suc (siguiente m)\<rparr>)"

definition unlink :: "nat \<Rightarrow> Mundo \<Rightarrow> Mundo" where
  "unlink tmp_path m = m\<lparr>archivos := removeAll tmp_path (archivos m)\<rparr>"

definition a_acento :: string where "a_acento = [CHR 0xC3, CHR 0xA1]"
definition o_acento :: string where "o_acento = [CHR 0xC3, CHR 0xB3]"

definition aviso_resumen :: string where
  "aviso_resumen = ''No se pudo generar el gr'' @ a_acento @ ''fico de resumen''"



definition figura_1 :: string where
  "figura_1 = ''Figura 1: Distribuci'' @ o_acento @ ''n general de cumplimiento''"


text \<open>
  One chart \<open>try\<close> block (lines 1613--1652, 1672--1706, 1749--1775) from the creation of the
  temporary file on: \<open>os.unlink\<close> is the last statement of the \<open>try\<close>, and the \<open>except\<close>
  only writes the notice.
\<close>

definition bloque_grafico ::
  "ResultadoGrafico \<Rightarrow> Grafico \<Rightarrow> pdf_op list \<Rightarrow> string \<Rightarrow> Mundo \<Rightarrow> pdf_op list \<times> Mundo" where
  "bloque_grafico r g pie aviso m =
     (case r of
        FallaFigura \<Rightarrow> ([Multi_cell [Texto aviso]], m)
      | FallaGuardar \<Rightarrow>
          (let (tmp_path, m1) = crear_temporal m in ([Multi_cell [Texto aviso]], m1))
      | FallaInsertar \<Rightarrow>
          (let (tmp_path, m1) = crear_temporal m in ([Multi_cell [Texto aviso]], m1))
      | Exito \<Rightarrow>
          (let (tmp_path, m1) = crear_temporal m
           in (Image_tmp tmp_path g # pie, unlink tmp_path m1)))"





text \<open>Lines 1592--1604: the state, its colour and its sentence.\<close>

definition verde_bosque :: "nat \<times> nat \<times> nat" where
  "verde_bosque = (0, 107, 63)"

definition conclusion_excelente :: string where
  "conclusion_excelente =
     ''La empresa muestra un alto nivel de cumplimiento con las normativas de seguridad y salud en el trabajo.''"

definition conclusion_aceptable :: string where
  "conclusion_aceptable =
     ''La empresa tiene un nivel de cumplimiento aceptable pero con oportunidades de mejora identificadas.''"

definition conclusion_insuficiente :: string where
  "conclusion_insuficiente =
     ''Se han identificado deficiencias importantes que requieren atenci'' @ o_acento @
     ''n inmediata.''"

definition clasificar_cumplimiento :: "rat \<Rightarrow> string \<times> (nat \<times> nat \<times> nat) \<times> string" where
  "clasificar_cumplimiento cumplimiento =
     (if cumplimiento \<ge> 80 then (''EXCELENTE'', verde_bosque, conclusion_excelente)
      else if cumplimiento \<ge> 50 then (''ACEPTABLE'', (255, 165, 0), conclusion_aceptable)
      else (''INSUFICIENTE'', (220, 20, 60), conclusion_insuficiente))"

definition estado_de :: "rat \<Rightarrow> string" where
  "estado_de cumplimiento = fst (clasificar_cumplimiento cumplimiento)"

text \<open>The executive summary, lines 1592--1662.\<close>

definition resumen_ejecutivo :: "Entorno \<Rightarrow> Estadisticas \<Rightarrow> Mundo \<Rightarrow> pdf_op list \<times> Mundo" where
  "resumen_ejecutivo env est m =
     (let cumplimiento = cumplimiento_promedio est;
          (estado, color_estado, conclusion) = clasificar_cumplimiento cumplimiento;
          total_cumple = sum_list (map (cumple \<circ> snd) (secciones est));
          total_no_cumple = sum_list (map (no_cumple \<circ> snd) (secciones est));
          total_no_aplica = sum_list (map (no_aplica \<circ> snd) (secciones est));
          (ops, m1) = bloque_grafico (resultado_grafico env GraficoGeneral)
                        (Pastel total_cumple total_no_cumple total_no_aplica)
                        [Cell [Texto figura_1]] aviso_resumen m
      in ([Cell [Texto ''ESTADO GENERAL: '', Texto estado, Texto '' ('',
                 Decimal1 cumplimiento, Texto ''%)'']] @ ops @
          [Multi_cell [Texto conclusion, Texto (str_lower estado), Decimal1 cumplimiento,
                       Numero (sum_list (map (total \<circ> snd) (secciones est))),
                       Numero total_no_cumple]], m1))"






text \<open>The choice of the recommendations, lines 1840--1864.\<close>

definition recomendaciones_de :: "rat \<Rightarrow> Recomendaciones" where
  "recomendaciones_de cumplimiento =
     (if cumplimiento \<ge> 80 then Rec_excelente
      else if cumplimiento \<ge> 50 then Rec_aceptable
      else Rec_insuficiente)"




section \<open>The spreadsheet export of \<open>reportes_page\<close> (lines 2018--2064)\<close>












section \<open>Reference counts and example data\<close>

text \<open>
  What a section's dictionary should hold after a list of questions, said by counting:
  the questions of the section, and among them the ones of each kind of answer.
\<close>

definition sumar :: "SeccionStats \<Rightarrow> SeccionStats \<Rightarrow> SeccionStats" where
  "sumar d e = \<lparr>total = total d + total e, cumple = cumple d + cumple e,
                no_cumple = no_cumple d + no_cumple e, no_aplica = no_aplica d + no_aplica e\<rparr>"

definition conteo_seccion :: "string \<Rightarrow> PreguntaVerificacion list \<Rightarrow> SeccionStats" where
  "conteo_seccion s ps =
     (let qs = filter (\<lambda>p. seccion p = s) ps
      in \<lparr>total = int (length qs),
          cumple = int (length (filter (\<lambda>p. respuesta p = Some resp_cumple) qs)),
          no_cumple = int (length (filter (\<lambda>p. respuesta p = Some resp_no_cumple) qs)),
          no_aplica = int (length (filter (\<lambda>p. respuesta p \<noteq> Some resp_cumple
                                            \<and> respuesta p \<noteq> Some resp_no_cumple) qs))\<rparr>)"

text \<open>\<open>d.get(s, seccion_nueva)\<close> on the association list.\<close>

definition entrada :: "(string \<times> SeccionStats) list \<Rightarrow> string \<Rightarrow> SeccionStats" where
  "entrada xs s = (case map_of xs s of None \<Rightarrow> seccion_nueva | Some d \<Rightarrow> d)"

text \<open>Every question of every stored form of the company, in the order of the two loops.\<close>

definition todas_las_preguntas :: "Database \<Rightarrow> string \<Rightarrow> PreguntaVerificacion list" where
  "todas_las_preguntas db r = concat (map preguntas (formularios_de db r))"

text \<open>One company, and small stores of forms for it.\<close>

definition ruc_ej :: string where "ruc_ej = ''1790012345001''"

definition empresa_ej :: Empresa where
  "empresa_ej =
     \<lparr>tipo = ''Privada'', empleador = ''Ana Perez'', razon_social = ''ACME S.A.'',
      ruc = ruc_ej, telefono = ''022000000'', correo = ''info@acme.ec'',
      actividad_economica = ''Comercio'', tipo_centro = ''Matriz'', direccion = ''Quito'',
      total_trabajadores = 12, consolidado_planilla = True,
      estadisticas_empresa = [(''hombres'', 7), (''mujeres'', 5)],
      horario_trabajo = ''08:00-17:00'', entrevistados = [], fecha_registro = 0\<rparr>"

definition pregunta_ej :: "string \<Rightarrow> string option \<Rightarrow> PreguntaVerificacion" where
  "pregunta_ej s r =
     \<lparr>pregunta_id = 1, seccion = s, categoria = ''Gestion'', pregunta = ''Plan aprobado'',
      normativa = ''Art. 4'', respuesta = r, observaciones = None\<rparr>"

definition formulario_ej :: "int \<Rightarrow> PreguntaVerificacion list \<Rightarrow> FormularioVerificacion" where
  "formulario_ej t ps =
     \<lparr>empresa_ruc = ruc_ej, inspector_cedula = ''1722212253'', fecha = t, preguntas = ps\<rparr>"

definition db_ej :: "(string \<times> FormularioVerificacion) list \<Rightarrow> Database" where
  "db_ej fs = \<lparr>empresas = [(ruc_ej, empresa_ej)], formularios = fs\<rparr>"

definition formulario_1 :: FormularioVerificacion where
  "formulario_1 = formulario_ej 1 [pregunta_ej ''A'' (Some resp_cumple)]"

definition formulario_2 :: FormularioVerificacion where
  "formulario_2 = formulario_ej 2 [pregunta_ej ''A'' (Some resp_no_cumple)]"

definition db_dos :: Database where
  "db_dos = db_ej [(''f1'', formulario_1), (''f2'', formulario_2)]"

definition db_ultimo :: Database where
  "db_ultimo = db_ej [(''f2'', formulario_2)]"

definition db_sin_respuesta :: Database where
  "db_sin_respuesta = db_ej [(''f1'', formulario_ej 1 [pregunta_ej ''A'' None])]"

definition db_no_aplica :: Database where
  "db_no_aplica = db_ej [(''f1'', formulario_ej 1
       [pregunta_ej ''A'' (Some resp_cumple), pregunta_ej ''A'' (Some resp_no_aplica)])]"

definition db_catalogo_vacio :: Database where
  "db_catalogo_vacio = db_ej [(''f1'', formulario_ej 1 [])]"

definition db_sin_formularios :: Database where
  "db_sin_formularios = db_ej []"

definition reporte_dos :: Reporte where
  "reporte_dos =
     \<lparr>rep_empresa = empresa_ej,
      rep_estadisticas =
        \<lparr>total_verificaciones = 2, ultima_verificacion = 2, cumplimiento_promedio = 50,
         secciones = [(''A'', \<lparr>total = 2, cumple = 1, no_cumple = 1, no_aplica = 0\<rparr>)]\<rparr>,
      ultimo_formulario = formulario_2\<rparr>"

definition reporte_ultimo :: Reporte where
  "reporte_ultimo =
     \<lparr>rep_empresa = empresa_ej,
      rep_estadisticas =
        \<lparr>total_verificaciones = 1, ultima_verificacion = 2, cumplimiento_promedio = 0,
         secciones = [(''A'', \<lparr>total = 1, cumple = 0, no_cumple = 1, no_aplica = 0\<rparr>)]\<rparr>,
      ultimo_formulario = formulario_2\<rparr>"

definition reporte_sin_respuesta :: Reporte where
  "reporte_sin_respuesta =
     \<lparr>rep_empresa = empresa_ej,
      rep_estadisticas =
        \<lparr>total_verificaciones = 1, ultima_verificacion = 1, cumplimiento_promedio = 0,
         secciones = [(''A'', \<lparr>total = 1, cumple = 0, no_cumple = 0, no_aplica = 1\<rparr>)]\<rparr>,
      ultimo_formulario = formulario_ej 1 [pregunta_ej ''A'' None]\<rparr>"

definition reporte_no_aplica :: Reporte where
  "reporte_no_aplica =
     \<lparr>rep_empresa = empresa_ej,
      rep_estadisticas =
        \<lparr>total_verificaciones = 1, ultima_verificacion = 1, cumplimiento_promedio = 50,
         secciones = [(''A'', \<lparr>total = 2, cumple = 1, no_cumple = 0, no_aplica = 1\<rparr>)]\<rparr>,
      ultimo_formulario = formulario_ej 1
        [pregunta_ej ''A'' (Some resp_cumple), pregunta_ej ''A'' (Some resp_no_aplica)]\<rparr>"

definition reporte_catalogo_vacio :: Reporte where
  "reporte_catalogo_vacio =
     \<lparr>rep_empresa = empresa_ej,
      rep_estadisticas =
        \<lparr>total_verificaciones = 1, ultima_verificacion = 1, cumplimiento_promedio = 0,
         secciones = []\<rparr>,
      ultimo_formulario = formulario_ej 1 []\<rparr>"













section \<open>Lemmas on the aggregation\<close>

lemma literales_distintos:
  "resp_cumple \<noteq> resp_no_cumple" "resp_cumple \<noteq> resp_no_aplica"
  "resp_no_cumple \<noteq> resp_no_aplica"
  "resp_no_seleccionado \<noteq> resp_cumple" "resp_no_seleccionado \<noteq> resp_no_cumple"
  by (simp_all add: resp_cumple_def resp_no_cumple_def resp_no_aplica_def resp_no_seleccionado_def)

lemma claves_procesar_pregunta:
  "fst ` set (acc_secciones (procesar_pregunta p a)) = insert (seccion p) (fst ` set (acc_secciones a))"
  by (auto simp: procesar_pregunta_def Let_def dom_map_entry dom_update)

lemma distinct_procesar_pregunta:
  "distinct (map fst (acc_secciones a)) \<Longrightarrow> distinct (map fst (acc_secciones (procesar_pregunta p a)))"
  by (simp add: procesar_pregunta_def Let_def distinct_map_entry distinct_update)

lemma entrada_procesar_pregunta:
  "entrada (acc_secciones (procesar_pregunta p a)) s =
     (if seccion p = s
      then contar_respuesta (respuesta p) ((entrada (acc_secciones a) s)\<lparr>total := total (entrada (acc_secciones a) s) + 1\<rparr>)
      else entrada (acc_secciones a) s)"
  by (auto simp: procesar_pregunta_def Let_def entrada_def map_of_map_entry update_conv'
      simp flip: map_of_eq_None_iff split: option.splits)

lemma conteo_Nil: "conteo_seccion s [] = seccion_nueva"
  by (simp add: conteo_seccion_def seccion_nueva_def)

lemma sumar_nueva: "sumar d seccion_nueva = d"
  by (simp add: sumar_def seccion_nueva_def)

lemma conteo_Cons:
  "sumar d (conteo_seccion s (p # ps)) =
     sumar (if seccion p = s then contar_respuesta (respuesta p) (d\<lparr>total := total d + 1\<rparr>) else d)
       (conteo_seccion s ps)"
  using literales_distintos(1)
  by (auto simp: conteo_seccion_def sumar_def contar_respuesta_def Let_def)

lemma entrada_procesar_preguntas:
  "entrada (acc_secciones (procesar_preguntas ps a)) s =
     sumar (entrada (acc_secciones a) s) (conteo_seccion s ps)"
proof (induction ps arbitrary: a)
  case Nil
  show ?case by (simp add: conteo_Nil sumar_nueva)
next
  case (Cons p ps)
  show ?case
    by (simp only: procesar_preguntas.simps Cons.IH entrada_procesar_pregunta conteo_Cons)
qed

lemma claves_procesar_preguntas:
  "fst ` set (acc_secciones (procesar_preguntas ps a)) = fst ` set (acc_secciones a) \<union> seccion ` set ps"
  by (induction ps arbitrary: a) (auto simp: claves_procesar_pregunta)

lemma distinct_procesar_preguntas:
  "distinct (map fst (acc_secciones a)) \<Longrightarrow> distinct (map fst (acc_secciones (procesar_preguntas ps a)))"
  by (induction ps arbitrary: a) (auto simp: distinct_procesar_pregunta)

lemma procesar_preguntas_append:
  "procesar_preguntas (ps @ qs) a = procesar_preguntas qs (procesar_preguntas ps a)"
  by (induction ps arbitrary: a) auto

lemma procesar_formularios_concat:
  "procesar_formularios fs a = procesar_preguntas (concat (map preguntas fs)) a"
  by (induction fs arbitrary: a) (auto simp: procesar_preguntas_append)










lemma max_fecha_Max: "max_fecha f fs = Max (fecha ` set (f # fs))"
  by (induction f fs rule: max_fecha.induct) (simp_all add: max.commute)

lemma max_fecha_sorted: "sorted (map fecha (f # fs)) \<Longrightarrow> max_fecha f fs = fecha (last (f # fs))"
  by (induction f fs rule: max_fecha.induct) (auto simp: max_def)

lemmas ej_defs = ruc_ej_def empresa_ej_def pregunta_ej_def formulario_ej_def db_ej_def
  generar_reporte_empresa_def formularios_de_def calcular_estadisticas_def
  acumulador_inicial_def procesar_pregunta_def contar_respuesta_def seccion_nueva_def
  cumplimiento_de_def py_round_def round_half_even_def Let_def
  resp_cumple_def resp_no_cumple_def resp_no_aplica_def resp_no_seleccionado_def

lemma generar_Inr:
  assumes "generar_reporte_empresa db r = Inr rep"
  obtains e f fs where "map_of (empresas db) r = Some e" "formularios_de db r = f # fs"
    "rep = \<lparr>rep_empresa = e, rep_estadisticas = calcular_estadisticas f fs,
            ultimo_formulario = last (f # fs)\<rparr>"
  using assms by (auto simp: generar_reporte_empresa_def split: option.splits list.splits)

lemma secciones_calcular:
  "secciones (calcular_estadisticas f fs) =
     acc_secciones (procesar_preguntas (concat (map preguntas (f # fs))) acumulador_inicial)"
  by (simp add: calcular_estadisticas_def Let_def procesar_formularios_concat
      del: procesar_formularios.simps)

lemma entrada_inicial: "entrada (acc_secciones acumulador_inicial) s = seccion_nueva"
  by (simp add: entrada_def acumulador_inicial_def)

lemma sumar_nueva_izq: "sumar seccion_nueva d = d"
  by (simp add: sumar_def seccion_nueva_def)

lemma distinct_secciones_calcular: "distinct (map fst (secciones (calcular_estadisticas f fs)))"
  unfolding secciones_calcular
  by (rule distinct_procesar_preguntas) (simp add: acumulador_inicial_def)

lemma seccion_es_conteo:
  assumes "(s, d) \<in> set (secciones (calcular_estadisticas f fs))"
  shows "d = conteo_seccion s (concat (map preguntas (f # fs)))"
proof -
  have "map_of (secciones (calcular_estadisticas f fs)) s = Some d"
    using assms distinct_secciones_calcular by (rule_tac map_of_is_SomeI) 
  then have "entrada (secciones (calcular_estadisticas f fs)) s = d"
    by (simp add: entrada_def)
  then show ?thesis
    unfolding secciones_calcular
    by (simp only: entrada_procesar_preguntas entrada_inicial sumar_nueva_izq)
qed

lemma claves_calcular:
  "fst ` set (secciones (calcular_estadisticas f fs)) = seccion ` set (concat (map preguntas (f # fs)))"
  unfolding secciones_calcular
  by (simp only: claves_procesar_preguntas) (simp add: acumulador_inicial_def)

lemma conteo_invariante:
  "total (conteo_seccion s ps) = cumple (conteo_seccion s ps) + no_cumple (conteo_seccion s ps) + no_aplica (conteo_seccion s ps)
   \<and> 0 \<le> cumple (conteo_seccion s ps) \<and> 0 \<le> no_cumple (conteo_seccion s ps) \<and> 0 \<le> no_aplica (conteo_seccion s ps)"
proof (induction ps)
  case Nil
  show ?case by (simp add: conteo_seccion_def)
next
  case (Cons p ps)
  then show ?case using literales_distintos(1) by (auto simp: conteo_seccion_def Let_def)
qed

lemmas db_defs = formulario_1_def formulario_2_def db_dos_def db_ultimo_def db_sin_respuesta_def
  db_no_aplica_def db_catalogo_vacio_def db_sin_formularios_def reporte_dos_def
  reporte_ultimo_def reporte_sin_respuesta_def reporte_no_aplica_def reporte_catalogo_vacio_def







lemma reporte_dos_eq: "generar_reporte_empresa db_dos ruc_ej = Inr reporte_dos"
  by (simp add: ej_defs db_defs)

lemma reporte_ultimo_eq: "generar_reporte_empresa db_ultimo ruc_ej = Inr reporte_ultimo"
  by (simp add: ej_defs db_defs)


lemma reporte_no_aplica_eq: "generar_reporte_empresa db_no_aplica ruc_ej = Inr reporte_no_aplica"
  by (simp add: ej_defs db_defs)

lemma reporte_catalogo_vacio_eq:
  "generar_reporte_empresa db_catalogo_vacio ruc_ej = Inr reporte_catalogo_vacio"
  by (simp add: ej_defs db_defs)

section \<open>Lemmas on the report and on the spreadsheet\<close>


lemma porcentaje_seccion_Inr:
  "porcentaje_seccion datos =
     Inr (if 0 < total datos - no_aplica datos
          then of_int (cumple datos) / of_int (total datos - no_aplica datos) * 100 else 0)"
  by (simp add: porcentaje_seccion_def py_truediv_def Let_def)



lemma porcentajes_secciones_no_falla: "\<exists>ps. porcentajes_secciones xs = Inr ps"
  by (induction xs) (auto simp: porcentaje_seccion_Inr)




















section \<open>The claims\<close>

text \<open>
  C1, as the code has it. The claim reads: the per-question statuses, the per-section
  counts and the overall ratio come from the most recent response set only, while the
  number of verifications and the last time stamp come from the whole history. The loop
  of line 247 walks every stored form of the company, so the counts are those of the
  whole history: for a company with at least one stored form, every section of the result
  holds the counts of all the questions of all its forms, its keys are the sections of
  those questions, the number of verifications is the number of forms, and the last
  verification is the greatest time stamp, which is the one of the last form when the
  forms are ordered by time.
\<close>

theorem estadisticas_del_historial:
  assumes "generar_reporte_empresa db r = Inr rep"
  shows "formularios_de db r \<noteq> []
     \<and> total_verificaciones (rep_estadisticas rep) = length (formularios_de db r)
     \<and> ultima_verificacion (rep_estadisticas rep) = Max (fecha ` set (formularios_de db r))
     \<and> (sorted (map fecha (formularios_de db r)) \<longrightarrow>
          ultima_verificacion (rep_estadisticas rep) = fecha (ultimo_formulario rep))
     \<and> fst ` set (secciones (rep_estadisticas rep)) = seccion ` set (todas_las_preguntas db r)
     \<and> (\<forall>(s, d) \<in> set (secciones (rep_estadisticas rep)).
          d = conteo_seccion s (todas_las_preguntas db r))"
proof -
  from assms obtain e f fs where e: "map_of (empresas db) r = Some e"
    and fs: "formularios_de db r = f # fs"
    and rep: "rep = \<lparr>rep_empresa = e, rep_estadisticas = calcular_estadisticas f fs,
                     ultimo_formulario = last (f # fs)\<rparr>"
    by (rule generar_Inr)
  have a: "total_verificaciones (rep_estadisticas rep) = length (formularios_de db r)"
    by (simp add: rep fs calcular_estadisticas_def Let_def)
  have u: "ultima_verificacion (rep_estadisticas rep) = max_fecha f fs"
    by (simp add: rep calcular_estadisticas_def Let_def)
  have b: "ultima_verificacion (rep_estadisticas rep) = Max (fecha ` set (formularios_de db r))"
    unfolding u fs by (rule max_fecha_Max)
  have c: "sorted (map fecha (formularios_de db r)) \<longrightarrow>
          ultima_verificacion (rep_estadisticas rep) = fecha (ultimo_formulario rep)"
    unfolding u fs using max_fecha_sorted [of f fs] by (simp add: rep)
  have d: "fst ` set (secciones (rep_estadisticas rep)) = seccion ` set (todas_las_preguntas db r)"
    using claves_calcular [of f fs] by (simp add: rep todas_las_preguntas_def fs)
  have e: "\<forall>(s, d) \<in> set (secciones (rep_estadisticas rep)).
          d = conteo_seccion s (todas_las_preguntas db r)"
    using seccion_es_conteo [of _ _ f fs] by (auto simp: rep todas_las_preguntas_def fs)
  show ?thesis using a b c d e fs by simp
qed

theorem estadisticas_del_historial_witness:
  "generar_reporte_empresa db_dos ruc_ej = Inr reporte_dos
   \<and> total_verificaciones (rep_estadisticas reporte_dos) = 2
   \<and> ultima_verificacion (rep_estadisticas reporte_dos) = fecha (ultimo_formulario reporte_dos)
   \<and> (''A'', \<lparr>total = 2, cumple = 1, no_cumple = 1, no_aplica = 0\<rparr>)
       \<in> set (secciones (rep_estadisticas reporte_dos))
   \<and> conteo_seccion ''A'' (todas_las_preguntas db_dos ruc_ej)
       = \<lparr>total = 2, cumple = 1, no_cumple = 1, no_aplica = 0\<rparr>"
proof -
  have a: "(''A'', \<lparr>total = 2, cumple = 1, no_cumple = 1, no_aplica = 0\<rparr>)
             \<in> set (secciones (rep_estadisticas reporte_dos))"
    by (simp add: db_defs)
  have orden: "sorted (map fecha (formularios_de db_dos ruc_ej))"
    by (simp add: ej_defs db_defs)
  have dos: "length (formularios_de db_dos ruc_ej) = 2"
    by (simp add: ej_defs db_defs)
  show ?thesis
    using estadisticas_del_historial [OF reporte_dos_eq] orden dos reporte_dos_eq a by auto
qed

text \<open>
  C1 as stated fails: with an older form answering "Cumple" and the most recent one
  answering "No cumple" to the same question, the section holds two items, one of them
  compliant, while the most recent form alone gives one item and none compliant.
\<close>

theorem solo_ultimo_formulario_counterexample:
  "generar_reporte_empresa db_dos ruc_ej = Inr reporte_dos
   \<and> generar_reporte_empresa db_ultimo ruc_ej = Inr reporte_ultimo
   \<and> ultimo_formulario reporte_dos = ultimo_formulario reporte_ultimo
   \<and> secciones (rep_estadisticas reporte_dos)
       = [(''A'', \<lparr>total = 2, cumple = 1, no_cumple = 1, no_aplica = 0\<rparr>)]
   \<and> secciones (rep_estadisticas reporte_ultimo)
       = [(''A'', \<lparr>total = 1, cumple = 0, no_cumple = 1, no_aplica = 0\<rparr>)]
   \<and> cumplimiento_promedio (rep_estadisticas reporte_dos) = 50
   \<and> cumplimiento_promedio (rep_estadisticas reporte_ultimo) = 0"
  by (simp add: ej_defs db_defs)

text \<open>
  C2, as the code has it. The claim reads: every answer gets exactly one of four statuses,
  a missing answer being Unanswered and not NotApplicable. The code has three counters
  and no fourth: the \<open>else\<close> of line 267 takes every answer that is neither of the two
  literals, the missing one included. So in every section of a report the total is the
  sum of the three counters, none is negative, and \<open>no_aplica\<close> counts the questions of
  the section whose answer is neither "Cumple" nor "No cumple".
\<close>

theorem tres_contadores:
  assumes "generar_reporte_empresa db r = Inr rep"
  shows "\<forall>(s, d) \<in> set (secciones (rep_estadisticas rep)).
           total d = cumple d + no_cumple d + no_aplica d
         \<and> cumple d + no_cumple d + no_aplica d \<le> total d
         \<and> 0 \<le> cumple d \<and> 0 \<le> no_cumple d \<and> 0 \<le> no_aplica d
         \<and> no_aplica d = int (length (filter (\<lambda>p. seccion p = s \<and> respuesta p \<noteq> Some resp_cumple
                                     \<and> respuesta p \<noteq> Some resp_no_cumple) (todas_las_preguntas db r)))"
proof -
  from assms obtain e f fs where fs: "formularios_de db r = f # fs"
    and rep: "rep = \<lparr>rep_empresa = e, rep_estadisticas = calcular_estadisticas f fs,
                     ultimo_formulario = last (f # fs)\<rparr>"
    by (rule generar_Inr)
  have "d = conteo_seccion s (todas_las_preguntas db r)"
    if "(s, d) \<in> set (secciones (rep_estadisticas rep))" for s d
    using that seccion_es_conteo [of s d f fs] by (simp add: rep todas_las_preguntas_def fs)
  moreover have "no_aplica (conteo_seccion s ps) =
      int (length (filter (\<lambda>p. seccion p = s \<and> respuesta p \<noteq> Some resp_cumple
                                     \<and> respuesta p \<noteq> Some resp_no_cumple) ps))" for s ps
    by (simp add: conteo_seccion_def Let_def conj_commute conj_left_commute)
  ultimately show ?thesis using conteo_invariante by fastforce
qed

theorem tres_contadores_witness:
  "generar_reporte_empresa db_no_aplica ruc_ej = Inr reporte_no_aplica
   \<and> (''A'', \<lparr>total = 2, cumple = 1, no_cumple = 0, no_aplica = 1\<rparr>)
       \<in> set (secciones (rep_estadisticas reporte_no_aplica))
   \<and> int (length (filter (\<lambda>p. seccion p = ''A'' \<and> respuesta p \<noteq> Some resp_cumple
                \<and> respuesta p \<noteq> Some resp_no_cumple) (todas_las_preguntas db_no_aplica ruc_ej))) = 1"
proof -
  have uno: "int (length (filter (\<lambda>p. seccion p = ''A'' \<and> respuesta p \<noteq> Some resp_cumple
                \<and> respuesta p \<noteq> Some resp_no_cumple) (todas_las_preguntas db_no_aplica ruc_ej))) = 1"
    by (simp add: ej_defs db_defs todas_las_preguntas_def)
  have claves: "secciones (rep_estadisticas reporte_no_aplica)
                  = [(''A'', \<lparr>total = 2, cumple = 1, no_cumple = 0, no_aplica = 1\<rparr>)]"
    by (simp add: db_defs)
  show ?thesis
    using tres_contadores [OF reporte_no_aplica_eq] reporte_no_aplica_eq
    unfolding claves by auto
qed

text \<open>
  C2 as stated fails: a question with no answer is counted in \<open>no_aplica\<close>, and nothing
  of the section is left for an unanswered count.
\<close>

theorem sin_respuesta_counterexample:
  "generar_reporte_empresa db_sin_respuesta ruc_ej = Inr reporte_sin_respuesta
   \<and> respuesta (hd (preguntas (ultimo_formulario reporte_sin_respuesta))) = None
   \<and> secciones (rep_estadisticas reporte_sin_respuesta)
       = [(''A'', \<lparr>total = 1, cumple = 0, no_cumple = 0, no_aplica = 1\<rparr>)]
   \<and> contar_respuesta None seccion_nueva
       = \<lparr>total = 0, cumple = 0, no_cumple = 0, no_aplica = 1\<rparr>"
  by (simp add: ej_defs db_defs)




text \<open>
  C4. The classifier maps every ratio to exactly one state: at least 80 gives EXCELENTE,
  at least 50 and below 80 gives ACEPTABLE, below 50 gives INSUFICIENTE; so 80 is
  EXCELENTE, 79.999 and 50 are ACEPTABLE and 49.999 is INSUFICIENTE. The recommendations
  follow the same state, and the state line of the report shows it.
\<close>

theorem clasificador_umbrales:
  "(estado_de x = ''EXCELENTE'' \<longleftrightarrow> 80 \<le> x)
   \<and> (estado_de x = ''ACEPTABLE'' \<longleftrightarrow> 50 \<le> x \<and> x < 80)
   \<and> (estado_de x = ''INSUFICIENTE'' \<longleftrightarrow> x < 50)
   \<and> estado_de 80 = ''EXCELENTE'' \<and> estado_de (79999 / 1000) = ''ACEPTABLE''
   \<and> estado_de 50 = ''ACEPTABLE'' \<and> estado_de (49999 / 1000) = ''INSUFICIENTE''
   \<and> (recomendaciones_de x = Rec_excelente \<longleftrightarrow> estado_de x = ''EXCELENTE'')
   \<and> (recomendaciones_de x = Rec_aceptable \<longleftrightarrow> estado_de x = ''ACEPTABLE'')
   \<and> (recomendaciones_de x = Rec_insuficiente \<longleftrightarrow> estado_de x = ''INSUFICIENTE'')
   \<and> hd (fst (resumen_ejecutivo env est m)) =
        Cell [Texto ''ESTADO GENERAL: '', Texto (estado_de (cumplimiento_promedio est)),
              Texto '' ('', Decimal1 (cumplimiento_promedio est), Texto ''%)'']"
  by (simp add: estado_de_def clasificar_cumplimiento_def recomendaciones_de_def
      resumen_ejecutivo_def Let_def split_def)

theorem clasificador_umbrales_witness:
  "estado_de 100 = ''EXCELENTE'' \<and> estado_de (6667 / 100) = ''ACEPTABLE''
   \<and> estado_de 0 = ''INSUFICIENTE''"
  using clasificador_umbrales [of 100] clasificador_umbrales [of "6667 / 100"]
    clasificador_umbrales [of 0]
  by simp
















end
